theory Spec2Isabelle
  imports Main "HOL-Library.AList"
begin

section \<open>Python strings\<close>

text \<open>
  A Python \<open>str\<close> is a sequence of Unicode code points, so it is modelled as a list of
  natural numbers and \<open>len\<close>, slicing and \<open>in\<close> count code points.  String literals of
  \<^verbatim>\<open>app.py\<close> are all ASCII; \<open>str\<close> embeds them.

  The Unicode character database behind \<open>str.lower\<close>, \<open>str.title\<close> and \<open>str.strip\<close> is
  not part of the repository.  The tables below hold its rows for the ASCII range
  (\<open>A\<close>--\<open>Z\<close>, \<open>a\<close>--\<open>z\<close>), for the letter U+017F (LATIN SMALL LETTER LONG S, which is
  lowercase, whose lowercase mapping is itself and whose uppercase and titlecase
  mapping is \<open>S\<close>), and the complete list of white-space code points.  Every other code
  point is treated as uncased, so the tables are exact on ASCII and on U+017F only; the
  one result that needs the case mappings to be exact is stated for ASCII labels.
\<close>

type_synonym pystr = "nat list"

definition str :: "string \<Rightarrow> pystr" where
  "str cs = map of_char cs"

definition is_upper :: "nat \<Rightarrow> bool" where
  "is_upper c = (65 \<le> c \<and> c \<le> 90)"

definition is_lower :: "nat \<Rightarrow> bool" where
  "is_lower c = ((97 \<le> c \<and> c \<le> 122) \<or> c = 383)"

definition is_cased :: "nat \<Rightarrow> bool" where
  "is_cased c = (is_upper c \<or> is_lower c)"

definition to_lower :: "nat \<Rightarrow> nat" where
  "to_lower c = (if is_upper c then c + 32 else c)"

definition to_title :: "nat \<Rightarrow> nat" where
  "to_title c = (if 97 \<le> c \<and> c \<le> 122 then c - 32 else if c = 383 then 83 else c)"

definition is_space :: "nat \<Rightarrow> bool" where
  "is_space c =
     ((9 \<le> c \<and> c \<le> 13) \<or> (28 \<le> c \<and> c \<le> 32) \<or> c = 133 \<or> c = 160 \<or> c = 5760
      \<or> (8192 \<le> c \<and> c \<le> 8202) \<or> c = 8232 \<or> c = 8233 \<or> c = 8239 \<or> c = 8287
      \<or> c = 12288)"

text \<open>\<open>s.lower()\<close>: every code point is replaced by its lowercase mapping.\<close>

definition lower :: "pystr \<Rightarrow> pystr" where
  "lower s = map to_lower s"

text \<open>\<open>s.strip()\<close>: white space is removed from both ends.\<close>

definition lstrip :: "pystr \<Rightarrow> pystr" where
  "lstrip s = dropWhile is_space s"

definition rstrip :: "pystr \<Rightarrow> pystr" where
  "rstrip s = rev (dropWhile is_space (rev s))"

definition strip :: "pystr \<Rightarrow> pystr" where
  "strip s = rstrip (lstrip s)"

text \<open>
  \<open>s.title()\<close>, as CPython computes it: a code point that follows a cased code point
  gets its lowercase mapping, any other code point gets its titlecase mapping.  The flag
  is CPython's \<open>previous_is_cased\<close>.
\<close>

fun title_from :: "bool \<Rightarrow> pystr \<Rightarrow> pystr" where
  "title_from previous_is_cased [] = []"
| "title_from previous_is_cased (c # cs) =
     (if previous_is_cased then to_lower c else to_title c) # title_from (is_cased c) cs"

definition title :: "pystr \<Rightarrow> pystr" where
  "title s = title_from False s"

text \<open>\<open>s.startswith(p)\<close> and the substring test \<open>p in s\<close>.\<close>

fun startswith :: "pystr \<Rightarrow> pystr \<Rightarrow> bool" where
  "startswith s [] = True"
| "startswith [] (p # ps) = False"
| "startswith (c # cs) (p # ps) = (c = p \<and> startswith cs ps)"

fun contains :: "pystr \<Rightarrow> pystr \<Rightarrow> bool" where
  "contains p [] = (p = [])"
| "contains p (c # cs) = (startswith (c # cs) p \<or> contains p cs)"

section \<open>Key normalisation\<close>

text \<open>
  The dictionary literal of \<open>normalize_key\<close>.  A Python dict iterates in insertion
  order, so the table is an association list in the order of the source.
\<close>

definition mapping :: "(pystr \<times> pystr) list" where
  "mapping =
     [(str ''memory'', str ''RAM''),
      (str ''ram'', str ''RAM''),
      (str ''internal storage'', str ''Storage''),
      (str ''storage'', str ''Storage''),
      (str ''battery capacity'', str ''Battery''),
      (str ''battery'', str ''Battery''),
      (str ''camera'', str ''Camera''),
      (str ''main camera'', str ''Camera''),
      (str ''display'', str ''Display''),
      (str ''screen size'', str ''Display''),
      (str ''price'', str ''Price''),
      (str ''product'', str ''Product'')]"

text \<open>The loop \<open>for k in mapping: if k in key: return mapping[k]\<close>; \<open>None\<close> when it falls through.\<close>

fun first_match :: "(pystr \<times> pystr) list \<Rightarrow> pystr \<Rightarrow> pystr option" where
  "first_match [] key = None"
| "first_match ((k, v) # m) key = (if contains k key then Some v else first_match m key)"

definition normalize_key :: "pystr \<Rightarrow> pystr" where
  "normalize_key key0 =
     (let key = strip (lower key0)
      in case first_match mapping key of
           Some v \<Rightarrow> v
         | None \<Rightarrow> title key)"


definition ascii :: "pystr \<Rightarrow> bool" where
  "ascii s = (\<forall>c \<in> set s. c < 128)"

section \<open>Feature maps and the outside world\<close>

text \<open>
  A feature map is a Python dict from \<open>str\<close> to \<open>str\<close>.  It is an association list in
  insertion order; \<open>d[k] = v\<close> overwrites the value of an existing key in place and
  appends a new key, which is what \<open>AList.update\<close> does.
\<close>

type_synonym dict = "(pystr \<times> pystr) list"

definition setitem :: "dict \<Rightarrow> pystr \<Rightarrow> pystr \<Rightarrow> dict" where
  "setitem d k v = AList.update k v d"

definition has_key :: "dict \<Rightarrow> pystr \<Rightarrow> bool" where
  "has_key d k = (map_of d k \<noteq> None)"

text \<open>
  Exceptions carry their message \<open>str(e)\<close>.  \<open>scrape_features\<close> tells
  \<open>requests.RequestException\<close> from every other \<open>Exception\<close>.
\<close>

datatype exn = RequestException pystr | Exception pystr

fun message :: "exn \<Rightarrow> pystr" where
  "message (RequestException m) = m"
| "message (Exception m) = m"

text \<open>
  What \<open>scrape_dynamic_features\<close> reads from the rendered document \<open>r.html\<close>: the
  \<open>.text\<close> of the first match of each selector (\<open>None\<close> when nothing matches), for every
  Amazon specification row the text of its first \<open>th\<close> and first \<open>td\<close>, and for every
  Flipkart section its rows, each the list of the texts of its \<open>td\<close> cells.
\<close>

record rendered =
  productTitle :: "pystr option"
  a_price :: "pystr option"
  techSpec_rows :: "(pystr option \<times> pystr option) list"
  B_NuCI :: "pystr option"
  price_30jeq3 :: "pystr option"
  spec_sections :: "pystr list list list"

text \<open>
  The parsed response of \<open>scrape_features\<close>, by what the function asks of it: the
  stripped text of the first \<open>h1\<close> (line 146), the \<open>meta\<close> tag named \<open>description\<close>
  (\<open>None\<close> when there is no such tag, otherwise its \<open>content\<close> attribute if it has one),
  for every \<open>ul\<close> or \<open>ol\<close> the stripped texts of its \<open>li\<close> elements, the stripped text
  of \<open>title\<close>, and \<open>len(response.content)\<close>.
\<close>

record page =
  h1 :: "pystr option"
  meta_description :: "pystr option option"
  list_elements :: "pystr list list"
  title_tag :: "pystr option"
  content_length :: nat

text \<open>
  The network: \<open>session_get\<close> is \<open>HTMLSession().get(url)\<close> followed by
  \<open>r.html.render(timeout=20)\<close>; \<open>requests_get\<close> is \<open>requests.get\<close>, \<open>raise_for_status\<close> and
  the parse by \<open>BeautifulSoup\<close>.  Either raises or returns the document.  Within one
  request the network answers a URL the same way each time it is asked.
\<close>

record world =
  session_get :: "pystr \<Rightarrow> exn + rendered"
  requests_get :: "pystr \<Rightarrow> exn + page"

text \<open>Every fetch that is attempted is appended to a log.\<close>

datatype fetch = RenderGet pystr | PlainGet pystr

section \<open>The rendered-DOM extractor\<close>

text \<open>\<open>title.text.strip() if title else 'N/A'\<close>\<close>

definition text_or_NA :: "pystr option \<Rightarrow> pystr" where
  "text_or_NA el = (case el of Some t \<Rightarrow> strip t | None \<Rightarrow> str ''N/A'')"

text \<open>The loop over the Amazon specification rows (lines 63--69).\<close>

fun amazon_specs :: "(pystr option \<times> pystr option) list \<Rightarrow> dict \<Rightarrow> dict" where
  "amazon_specs [] data = data"
| "amazon_specs ((key_el, val_el) # specs) data =
     (case (key_el, val_el) of
        (Some k, Some v) \<Rightarrow> amazon_specs specs (setitem data (normalize_key (strip k)) (strip v))
      | _ \<Rightarrow> amazon_specs specs data)"

definition amazon_data :: "rendered \<Rightarrow> dict" where
  "amazon_data r =
     (let data = [];
          data = setitem data (str ''Product'') (text_or_NA (productTitle r));
          data = setitem data (str ''Price'') (text_or_NA (a_price r))
      in amazon_specs (techSpec_rows r) data)"

text \<open>The two nested loops over the Flipkart sections and their rows (lines 79--86).\<close>

fun flipkart_rows :: "pystr list list \<Rightarrow> dict \<Rightarrow> dict" where
  "flipkart_rows [] data = data"
| "flipkart_rows (cells # rows) data =
     (if length cells = 2
      then flipkart_rows rows (setitem data (normalize_key (strip (cells ! 0))) (strip (cells ! 1)))
      else flipkart_rows rows data)"

fun flipkart_specs :: "pystr list list list \<Rightarrow> dict \<Rightarrow> dict" where
  "flipkart_specs [] data = data"
| "flipkart_specs (section # specs) data = flipkart_specs specs (flipkart_rows section data)"

definition flipkart_data :: "rendered \<Rightarrow> dict" where
  "flipkart_data r =
     (let data = [];
          data = setitem data (str ''Product'') (text_or_NA (B_NuCI r));
          data = setitem data (str ''Price'') (text_or_NA (price_30jeq3 r))
      in flipkart_specs (spec_sections r) data)"

definition scrape_dynamic_features :: "world \<Rightarrow> pystr \<Rightarrow> fetch list \<Rightarrow> dict \<times> fetch list" where
  "scrape_dynamic_features w url log =
     (case session_get w url of
        Inr r \<Rightarrow>
          (if contains (str ''amazon'') url then amazon_data r
           else if contains (str ''flipkart'') url then flipkart_data r
           else [(str ''error'', str ''Unsupported platform'')],
           log @ [RenderGet url])
      | Inl e \<Rightarrow>
          ([(str ''error'', str ''Error scraping '' @ url @ str '': '' @ message e)],
           log @ [RenderGet url]))"

section \<open>The generic extractor\<close>

text \<open>
  The body of the \<open>try\<close> of \<open>scrape_features\<close> once the page is fetched and parsed
  (lines 143--185).  Lines 146--148 store the heading under \<open>Product\<close>.  Line 151 then
  calls \<open>extract_text\<close>.  \<^verbatim>\<open>app.py\<close> binds that name nowhere: it is not imported,
  not assigned and not defined, and neither are \<open>PRICE_SELECTORS\<close> and
  \<open>DESC_SELECTORS\<close>.  Evaluating the name raises \<open>NameError\<close>, so the body ends there on
  every page and lines 152--185 are never reached.
\<close>

definition try_body :: "pystr \<Rightarrow> page \<Rightarrow> exn + dict" where
  "try_body url pg =
     (let features = [];
          features = (case h1 pg of
                        Some t \<Rightarrow> setitem features (str ''Product'') t
                      | None \<Rightarrow> features)
      in Inl (Exception (str ''name 'extract_text' is not defined'')))"

text \<open>
  What \<open>scrape_features\<close> returns once the page is fetched and parsed: the features of
  the body, or the map of the handler that catches what the body raises (lines
  187--192).
\<close>

definition features_of :: "pystr \<Rightarrow> page \<Rightarrow> dict" where
  "features_of url pg =
     (case try_body url pg of
        Inr features \<Rightarrow> features
      | Inl (RequestException m) \<Rightarrow>
          [(str ''error'', str ''Failed to fetch '' @ url @ str '': '' @ m)]
      | Inl (Exception m) \<Rightarrow>
          [(str ''error'', str ''Error scraping '' @ url @ str '': '' @ m)])"

definition scrape_features :: "world \<Rightarrow> pystr \<Rightarrow> fetch list \<Rightarrow> dict \<times> fetch list" where
  "scrape_features w url log =
     (case requests_get w url of
        Inr pg \<Rightarrow> (features_of url pg, log @ [PlainGet url])
      | Inl (RequestException m) \<Rightarrow>
          ([(str ''error'', str ''Failed to fetch '' @ url @ str '': '' @ m)], log @ [PlainGet url])
      | Inl (Exception m) \<Rightarrow>
          ([(str ''error'', str ''Error scraping '' @ url @ str '': '' @ m)], log @ [PlainGet url]))"

section \<open>The comparison handler\<close>

text \<open>
  The value of \<open>request.get_json()\<close>.  \<open>JNull\<close> is Python's \<open>None\<close>; of a number only
  whether it is zero matters to the handler.
\<close>

datatype json =
  JNull | JBool bool | JNum int | JStr pystr | JArr "json list" | JObj "(pystr \<times> json) list"

fun truthy :: "json \<Rightarrow> bool" where
  "truthy JNull = False"
| "truthy (JBool b) = b"
| "truthy (JNum n) = (n \<noteq> 0)"
| "truthy (JStr s) = (s \<noteq> [])"
| "truthy (JArr xs) = (xs \<noteq> [])"
| "truthy (JObj kvs) = (kvs \<noteq> [])"

text \<open>\<open>data.get(k)\<close> on a dict.\<close>

definition dict_get :: "(pystr \<times> json) list \<Rightarrow> pystr \<Rightarrow> json" where
  "dict_get d k = (case map_of d k of None \<Rightarrow> JNull | Some v \<Rightarrow> v)"

definition is_valid_url :: "pystr \<Rightarrow> bool" where
  "is_valid_url url = (startswith url (str ''http://'') \<or> startswith url (str ''https://''))"

text \<open>
  The handler is not inside a \<open>try\<close>: \<open>data.get\<close> on a value that is not a dict and
  \<open>url.startswith\<close> on a value that is not a string raise \<open>AttributeError\<close>.
\<close>

datatype crash = AttributeError

datatype body = ErrorBody pystr | DataBody dict dict

type_synonym response = "nat \<times> body"

text \<open>Lines 114--119 (and 209--214): the reserved key \<open>error\<close> marks a failed extraction.\<close>

definition respond :: "dict \<Rightarrow> dict \<Rightarrow> response" where
  "respond result1 result2 =
     (case map_of result1 (str ''error'') of
        Some m \<Rightarrow> (400, ErrorBody m)
      | None \<Rightarrow>
          (case map_of result2 (str ''error'') of
             Some m \<Rightarrow> (400, ErrorBody m)
           | None \<Rightarrow> (200, DataBody result1 result2)))"

text \<open>
  \<^verbatim>\<open>app.py\<close> defines \<open>compare\<close> twice.  The two bodies are the same text except for the
  line that extracts: lines 111--112 in the first, line 207 in the second.  \<open>handle\<close> is
  the shared text, with the extraction of one URL as its parameter.
\<close>

definition handle ::
  "(pystr \<Rightarrow> fetch list \<Rightarrow> dict \<times> fetch list) \<Rightarrow> json \<Rightarrow> (crash + response) \<times> fetch list" where
  "handle extract data =
     (if \<not> truthy data then (Inr (400, ErrorBody (str ''Missing JSON payload'')), [])
      else case data of
        JObj d \<Rightarrow>
          (let url1 = dict_get d (str ''url1''); url2 = dict_get d (str ''url2'')
           in if \<not> (truthy url1 \<and> truthy url2)
              then (Inr (400, ErrorBody (str ''Both URLs are required'')), [])
              else case url1 of
                JStr u1 \<Rightarrow>
                  if \<not> is_valid_url u1
                  then (Inr (400, ErrorBody (str ''URLs must start with http:// or https://'')), [])
                  else (case url2 of
                     JStr u2 \<Rightarrow>
                       if \<not> is_valid_url u2
                       then (Inr (400, ErrorBody (str ''URLs must start with http:// or https://'')), [])
                       else (let (result1, log1) = extract u1 [];
                                 (result2, log2) = extract u2 log1
                             in (Inr (respond result1 result2), log2))
                   | _ \<Rightarrow> (Inl AttributeError, []))
              | _ \<Rightarrow> (Inl AttributeError, []))
      | _ \<Rightarrow> (Inl AttributeError, []))"

text \<open>Lines 111--112: the extraction of one URL in the first definition of \<open>compare\<close>.\<close>

definition routed :: "world \<Rightarrow> pystr \<Rightarrow> fetch list \<Rightarrow> dict \<times> fetch list" where
  "routed w url log =
     (if contains (str ''amazon'') url \<or> contains (str ''flipkart'') url
      then scrape_dynamic_features w url log
      else scrape_features w url log)"

text \<open>The first definition of \<open>compare\<close> (lines 98--119).\<close>

definition compare :: "world \<Rightarrow> json \<Rightarrow> (crash + response) \<times> fetch list" where
  "compare w data = handle (routed w) data"

text \<open>The second definition of \<open>compare\<close> (lines 194--214).\<close>

definition compare2 :: "world \<Rightarrow> json \<Rightarrow> (crash + response) \<times> fetch list" where
  "compare2 w data = handle (scrape_features w) data"

section \<open>The host of a URL, in the words of the spec\<close>

text \<open>
  The spec routes on the host of the URL; the source has no notion of a host.
  \<open>spec_host\<close> follows the spec: the part of an absolute HTTP(S) URL after the scheme
  and before the first \<open>/\<close>, \<open>?\<close> or \<open>#\<close>.  It is compared with what the source does.
\<close>

definition spec_host :: "pystr \<Rightarrow> pystr" where
  "spec_host url =
     takeWhile (\<lambda>c. c \<noteq> 47 \<and> c \<noteq> 63 \<and> c \<noteq> 35)
       (if startswith url (str ''https://'') then drop 8 url
        else if startswith url (str ''http://'') then drop 7 url
        else url)"

definition spec_host_matches :: "pystr \<Rightarrow> bool" where
  "spec_host_matches url =
     (contains (str ''amazon'') (spec_host url) \<or> contains (str ''flipkart'') (spec_host url))"

section \<open>Concrete inputs\<close>

definition page0 :: page where
  "page0 = \<lparr>h1 = Some (str ''Widget''),
            meta_description = Some (Some (str ''A widget'')), list_elements = [],
            title_tag = Some (str ''Widget shop''), content_length = 120\<rparr>"

definition rendered0 :: rendered where
  "rendered0 = \<lparr>productTitle = Some (str '' Phone ''), a_price = None,
                techSpec_rows = [(Some (str ''RAM''), Some (str ''8 GB'')),
                                 (Some (str ''Internal Storage''), Some (str ''128 GB'')),
                                 (Some (str ''Colour''), None)],
                B_NuCI = None, price_30jeq3 = None,
                spec_sections = [[[str ''Battery Capacity'', str ''5000 mAh''], [str ''Note'']]]\<rparr>"

text \<open>
  A network on which \<^verbatim>\<open>http://a.example/x\<close> times out and every other URL is
  fetched: the plain fetch gives \<open>page0\<close>, the rendering fetch gives \<open>rendered0\<close>.
\<close>

definition world0 :: world where
  "world0 = \<lparr>session_get = (\<lambda>url. Inr rendered0),
             requests_get = (\<lambda>url. if url = str ''http://a.example/x''
                                   then Inl (RequestException (str ''timed out''))
                                   else Inr page0)\<rparr>"

definition request :: "pystr \<Rightarrow> pystr \<Rightarrow> json" where
  "request u1 u2 = JObj [(str ''url1'', JStr u1), (str ''url2'', JStr u2)]"

section \<open>Strings and key normalisation: lemmas\<close>

lemmas chr_defs = is_upper_def is_lower_def is_cased_def to_lower_def to_title_def is_space_def
lemmas str_defs = str_def lower_def strip_def lstrip_def rstrip_def title_def

lemma title_eq_Nil: "title s = [] \<longleftrightarrow> s = []"
  by (cases s) (simp_all add: title_def)

lemma is_space_to_lower: "is_space (to_lower c) = is_space c"
  by (auto simp: chr_defs)





lemma first_match_range: "first_match m key = Some v \<Longrightarrow> v \<in> snd ` set m"
  by (induction m) (auto split: if_splits)



lemma rstrip_Cons:
  "rstrip (c # cs) = (if rstrip cs = [] \<and> is_space c then [] else c # rstrip cs)"
proof (cases "\<forall>x \<in> set (rev cs). is_space x")
  case True
  then have "dropWhile is_space (rev cs @ [c]) = dropWhile is_space [c]"
    by (intro dropWhile_append2) auto
  moreover have "dropWhile is_space (rev cs) = []" using True by simp
  ultimately show ?thesis by (simp add: rstrip_def)
next
  case False
  then obtain x where "x \<in> set (rev cs)" "\<not> is_space x" by blast
  then have "dropWhile is_space (rev cs @ [c]) = dropWhile is_space (rev cs) @ [c]"
    by (simp add: dropWhile_append1)
  moreover have "dropWhile is_space (rev cs) \<noteq> []" using False by simp
  ultimately show ?thesis by (simp add: rstrip_def)
qed

lemma rstrip_Nil: "rstrip [] = []"
  by (simp add: rstrip_def)

lemma rstrip_idem: "rstrip (rstrip s) = rstrip s"
  by (induction s) (simp_all add: rstrip_Nil rstrip_Cons)

lemma lstrip_rstrip_lstrip: "lstrip (rstrip (lstrip s)) = rstrip (lstrip s)"
proof (cases "lstrip s")
  case Nil
  moreover have "lstrip [] = []" by (simp add: lstrip_def)
  ultimately show ?thesis by (simp add: rstrip_Nil)
next
  case (Cons c cs)
  then have "\<not> is_space c"
    unfolding lstrip_def by (metis hd_dropWhile list.sel(1) list.distinct(1))
  moreover have "lstrip (c # rstrip cs) = c # rstrip cs" if "\<not> is_space c"
    using that by (simp add: lstrip_def)
  ultimately show ?thesis using Cons by (simp add: rstrip_Cons)
qed

lemma strip_idem: "strip (strip s) = strip s"
  by (simp add: strip_def lstrip_rstrip_lstrip rstrip_idem)

lemma strip_lower: "strip (lower s) = lower (strip s)"
proof -
  have comp: "is_space \<circ> to_lower = is_space"
    by (rule ext) (simp add: is_space_to_lower)
  show ?thesis
    by (simp add: strip_def lstrip_def rstrip_def lower_def dropWhile_map rev_map comp)
qed

lemma set_strip: "set (strip s) \<subseteq> set s"
proof -
  have "set (rstrip t) \<subseteq> set t" for t
    unfolding rstrip_def using set_dropWhileD [of _ is_space "rev t"] by auto
  moreover have "set (lstrip s) \<subseteq> set s"
    unfolding lstrip_def using set_dropWhileD [of _ is_space s] by auto
  ultimately show ?thesis unfolding strip_def by blast
qed

lemma strip_eq_Nil: "strip s = [] \<longleftrightarrow> (\<forall>c \<in> set s. is_space c)"
proof -
  have "rstrip t = [] \<longleftrightarrow> (\<forall>c \<in> set t. is_space c)" for t
    by (simp add: rstrip_def)
  then have "strip s = [] \<longleftrightarrow> (\<forall>c \<in> set (dropWhile is_space s). is_space c)"
    by (simp add: strip_def lstrip_def)
  also have "\<dots> \<longleftrightarrow> (\<forall>c \<in> set s. is_space c)"
  proof
    assume h: "\<forall>c \<in> set (dropWhile is_space s). is_space c"
    show "\<forall>c \<in> set s. is_space c"
    proof (cases "dropWhile is_space s")
      case Nil
      then show ?thesis by simp
    next
      case (Cons c cs)
      then have "\<not> is_space c" by (metis hd_dropWhile list.sel(1) list.distinct(1))
      then show ?thesis using h Cons by simp
    qed
  next
    assume "\<forall>c \<in> set s. is_space c"
    then show "\<forall>c \<in> set (dropWhile is_space s). is_space c"
      by (meson set_dropWhileD)
  qed
  finally show ?thesis .
qed

lemma to_lower_title_ascii: "c < 128 \<Longrightarrow> to_lower (to_title (to_lower c)) = to_lower c"
  by (auto simp: chr_defs)

lemma to_lower_idem: "to_lower (to_lower c) = to_lower c"
  by (auto simp: chr_defs)

lemma lower_title_from_lower:
  "\<forall>c \<in> set s. c < 128 \<Longrightarrow> lower (title_from b (lower s)) = lower s"
proof (induction s arbitrary: b)
  case Nil
  then show ?case by (simp add: lower_def)
next
  case (Cons c cs)
  then have "lower (title_from (is_cased (to_lower c)) (lower cs)) = lower cs" by simp
  then show ?case using Cons.prems
    by (simp add: lower_def to_lower_title_ascii to_lower_idem)
qed


lemma to_title_not_e: "to_title c \<noteq> 101"
  by (auto simp: chr_defs)

lemma title_not_error: "title s \<noteq> str ''error''"
  by (cases s) (simp_all add: title_def str_def to_title_not_e)

lemma canonical_names:
  "first_match mapping key = Some v \<Longrightarrow>
     v \<in> {str ''RAM'', str ''Storage'', str ''Battery'', str ''Camera'', str ''Display'',
          str ''Price'', str ''Product''}"
  by (drule first_match_range) (auto simp: mapping_def)

lemma normalize_key_canonical:
  "v \<in> {str ''RAM'', str ''Storage'', str ''Battery'', str ''Camera'', str ''Display'',
          str ''Price'', str ''Product''} \<Longrightarrow> normalize_key v = v"
  by (auto simp: normalize_key_def mapping_def str_defs chr_defs)

lemma normalize_key_idem_ascii: "ascii s \<Longrightarrow> normalize_key (normalize_key s) = normalize_key s"
proof (cases "first_match mapping (strip (lower s))")
  case (Some v)
  then have "normalize_key s = v" by (simp add: normalize_key_def)
  then show ?thesis using canonical_names [OF Some] normalize_key_canonical by simp
next
  case None
  assume a: "ascii s"
  let ?t = "strip s"
  have key: "strip (lower s) = lower ?t" by (rule strip_lower)
  have "\<forall>c \<in> set ?t. c < 128" using a set_strip [of s] by (auto simp: ascii_def)
  then have "lower (title (lower ?t)) = lower ?t"
    unfolding title_def by (rule lower_title_from_lower)
  then have "strip (lower (title (lower ?t))) = lower ?t"
    using strip_idem [of "lower s"] by (simp add: key)
  moreover have "normalize_key s = title (lower ?t)" using None by (simp add: normalize_key_def key)
  ultimately show ?thesis using None by (simp add: normalize_key_def key)
qed

lemma normalize_key_eq_Nil: "normalize_key s = [] \<longleftrightarrow> (\<forall>c \<in> set s. is_space c)"
proof (cases "first_match mapping (strip (lower s))")
  case (Some v)
  then have v: "normalize_key s = v" by (simp add: normalize_key_def)
  have "v \<noteq> []" using canonical_names [OF Some] by (auto simp: str_def)
  moreover have "strip (lower s) \<noteq> []"
  proof
    assume "strip (lower s) = []"
    then have "first_match mapping (strip (lower s)) = None"
      by (simp add: mapping_def str_def)
    then show False using Some by simp
  qed
  then have "\<not> (\<forall>c \<in> set s. is_space c)"
    by (simp add: strip_lower lower_def strip_eq_Nil is_space_to_lower)
  ultimately show ?thesis using v by simp
next
  case None
  then have "normalize_key s = title (strip (lower s))" by (simp add: normalize_key_def)
  then show ?thesis
    by (simp add: title_eq_Nil strip_lower lower_def strip_eq_Nil is_space_to_lower)
qed

lemma normalize_key_not_error: "normalize_key s \<noteq> str ''error''"
proof (cases "first_match mapping (strip (lower s))")
  case (Some v)
  then show ?thesis using canonical_names [OF Some] by (auto simp: normalize_key_def str_def)
next
  case None
  then show ?thesis by (simp add: normalize_key_def title_not_error)
qed


section \<open>Keys written by the extractors\<close>

lemma map_of_setitem: "map_of (setitem d k v) = (map_of d)(k \<mapsto> v)"
  by (simp add: setitem_def update_conv')

text \<open>Keys written by the rendered-DOM extractor.\<close>

lemma amazon_specs_error:
  "map_of (amazon_specs specs data) (str ''error'') = map_of data (str ''error'')"
proof (induction specs arbitrary: data)
  case Nil
  then show ?case by simp
next
  case (Cons row specs)
  obtain key_el val_el where row: "row = (key_el, val_el)" by (cases row)
  show ?case
  proof (cases "\<exists>k v. key_el = Some k \<and> val_el = Some v")
    case True
    then obtain k v where kv: "key_el = Some k" "val_el = Some v" by blast
    have "str ''error'' \<noteq> normalize_key (strip k)"
      using normalize_key_not_error [of "strip k"] by simp
    then show ?thesis using Cons.IH row kv by (simp add: map_of_setitem)
  next
    case False
    then show ?thesis using Cons.IH row by (cases key_el; cases val_el) simp_all
  qed
qed

lemma flipkart_rows_error:
  "map_of (flipkart_rows rows data) (str ''error'') = map_of data (str ''error'')"
proof (induction rows arbitrary: data)
  case Nil
  then show ?case by simp
next
  case (Cons cells rows)
  have "str ''error'' \<noteq> normalize_key (strip (cells ! 0))"
    using normalize_key_not_error [of "strip (cells ! 0)"] by simp
  then show ?case using Cons.IH by (simp add: map_of_setitem)
qed

lemma flipkart_specs_error:
  "map_of (flipkart_specs specs data) (str ''error'') = map_of data (str ''error'')"
  by (induction specs arbitrary: data) (simp_all add: flipkart_rows_error)

lemma error_not_fixed_key:
  "str ''error'' \<noteq> str ''Product''" "str ''error'' \<noteq> str ''Price''"
  "str ''error'' \<noteq> str ''Description''" "str ''error'' \<noteq> str ''Title''"
  "str ''error'' \<noteq> str ''URL''" "str ''error'' \<noteq> str ''Content Length''"
  by (simp_all add: str_def)

lemma amazon_data_error: "map_of (amazon_data r) (str ''error'') = None"
  by (simp add: amazon_data_def amazon_specs_error map_of_setitem error_not_fixed_key)

lemma flipkart_data_error: "map_of (flipkart_data r) (str ''error'') = None"
  by (simp add: flipkart_data_def flipkart_specs_error map_of_setitem error_not_fixed_key)

text \<open>The generic extractor on a fetched page.\<close>

lemma features_of_eq:
  "features_of url pg =
     [(str ''error'', str ''Error scraping '' @ url @ str '': name 'extract_text' is not defined'')]"
  by (simp add: features_of_def try_body_def Let_def str_def)

section \<open>The handler: lemmas\<close>

lemma is_valid_url_nonempty: "is_valid_url u \<Longrightarrow> u \<noteq> []"
  by (auto simp: is_valid_url_def str_def)

lemma snd_scrape_features: "snd (scrape_features w url log) = log @ [PlainGet url]"
  by (simp add: scrape_features_def split: sum.splits exn.splits)

lemma snd_scrape_dynamic_features: "snd (scrape_dynamic_features w url log) = log @ [RenderGet url]"
  by (simp add: scrape_dynamic_features_def split: sum.splits)

lemma fst_scrape_features: "fst (scrape_features w url log) = fst (scrape_features w url [])"
  by (simp add: scrape_features_def split: sum.splits exn.splits)

lemma fst_scrape_dynamic_features:
  "fst (scrape_dynamic_features w url log) = fst (scrape_dynamic_features w url [])"
  by (simp add: scrape_dynamic_features_def split: sum.splits)

lemma snd_routed:
  "snd (routed w url log) =
     log @ [if contains (str ''amazon'') url \<or> contains (str ''flipkart'') url
            then RenderGet url else PlainGet url]"
  by (simp add: routed_def snd_scrape_features snd_scrape_dynamic_features)

lemma fst_routed: "fst (routed w url log) = fst (routed w url [])"
  using fst_scrape_features [of w url log] fst_scrape_dynamic_features [of w url log]
  by (simp add: routed_def)

lemma handle_valid:
  assumes "map_of d (str ''url1'') = Some (JStr u1)" "map_of d (str ''url2'') = Some (JStr u2)"
    and "is_valid_url u1" "is_valid_url u2"
  shows "handle extract (JObj d) =
           (Inr (respond (fst (extract u1 [])) (fst (extract u2 (snd (extract u1 []))))),
            snd (extract u2 (snd (extract u1 []))))"
proof -
  have "d \<noteq> []" using assms(1) by auto
  moreover have "u1 \<noteq> []" "u2 \<noteq> []" using assms(3,4) by (auto dest: is_valid_url_nonempty)
  ultimately show ?thesis using assms
    by (simp add: handle_def dict_get_def Let_def split: prod.splits)
qed

lemma failure_message_not_unsupported:
  "str ''Failed to fetch '' @ x \<noteq> str ''Unsupported platform''"
  "str ''Error scraping '' @ x \<noteq> str ''Unsupported platform''"
  by (simp_all add: str_def)

lemma scrape_features_message:
  "map_of (fst (scrape_features w url log)) (str ''error'') = Some m \<Longrightarrow>
     m \<noteq> str ''Unsupported platform''"
  using failure_message_not_unsupported
  by (auto simp: scrape_features_def features_of_eq split: sum.splits exn.splits)

lemma scrape_dynamic_features_message:
  "contains (str ''amazon'') url \<or> contains (str ''flipkart'') url \<Longrightarrow>
   map_of (fst (scrape_dynamic_features w url log)) (str ''error'') = Some m \<Longrightarrow>
     m \<noteq> str ''Unsupported platform''"
  using failure_message_not_unsupported
  by (auto simp: scrape_dynamic_features_def amazon_data_error flipkart_data_error
      split: sum.splits if_splits)

lemma routed_message:
  "map_of (fst (routed w url log)) (str ''error'') = Some m \<Longrightarrow> m \<noteq> str ''Unsupported platform''"
  using scrape_features_message [of w url log m] scrape_dynamic_features_message [of url w log m]
  by (auto simp: routed_def split: if_splits)

lemma respond_message:
  assumes "respond r1 r2 = (c, ErrorBody m)"
  shows "map_of r1 (str ''error'') = Some m \<or> map_of r2 (str ''error'') = Some m"
  using assms by (auto simp: respond_def split: option.splits)

lemma handle_error_body:
  assumes "fst (handle extract data) = Inr (c, ErrorBody m)"
    and "m \<noteq> str ''Missing JSON payload''" "m \<noteq> str ''Both URLs are required''"
    and "m \<noteq> str ''URLs must start with http:// or https://''"
  shows "\<exists>u log. map_of (fst (extract u log)) (str ''error'') = Some m"
proof -
  from assms obtain u1 u2 where
    "respond (fst (extract u1 [])) (fst (extract u2 (snd (extract u1 [])))) = (c, ErrorBody m)"
    by (auto simp: handle_def Let_def case_prod_beta split: json.splits if_splits)
  then show ?thesis using respond_message by blast
qed

section \<open>The claims\<close>

text \<open>
  Claim C1, as amended.  Both definitions of \<open>compare\<close> extract both URLs before they
  look at either result.  When the extraction of the first URL fails with message \<open>m\<close>,
  the response is status 400 with \<open>m\<close> as its only content, whatever the second
  extraction returned, and the log holds the fetch of the first URL followed by the
  fetch of the second.
\<close>

theorem compare_first_failure_terminal:
  assumes "map_of d (str ''url1'') = Some (JStr u1)" "map_of d (str ''url2'') = Some (JStr u2)"
    and "is_valid_url u1" "is_valid_url u2"
  shows "(map_of (fst (routed w u1 [])) (str ''error'') = Some m \<longrightarrow>
            compare w (JObj d) =
              (Inr (400, ErrorBody m),
               [if contains (str ''amazon'') u1 \<or> contains (str ''flipkart'') u1
                then RenderGet u1 else PlainGet u1,
                if contains (str ''amazon'') u2 \<or> contains (str ''flipkart'') u2
                then RenderGet u2 else PlainGet u2]))
       \<and> (map_of (fst (scrape_features w u1 [])) (str ''error'') = Some m \<longrightarrow>
            compare2 w (JObj d) = (Inr (400, ErrorBody m), [PlainGet u1, PlainGet u2]))"
proof (intro conjI impI)
  assume m: "map_of (fst (routed w u1 [])) (str ''error'') = Some m"
  have "fst (routed w u2 (snd (routed w u1 []))) = fst (routed w u2 [])" by (rule fst_routed)
  then show "compare w (JObj d) =
              (Inr (400, ErrorBody m),
               [if contains (str ''amazon'') u1 \<or> contains (str ''flipkart'') u1
                then RenderGet u1 else PlainGet u1,
                if contains (str ''amazon'') u2 \<or> contains (str ''flipkart'') u2
                then RenderGet u2 else PlainGet u2])"
    using m by (simp add: compare_def handle_valid [OF assms] snd_routed respond_def)
next
  assume m: "map_of (fst (scrape_features w u1 [])) (str ''error'') = Some m"
  then show "compare2 w (JObj d) = (Inr (400, ErrorBody m), [PlainGet u1, PlainGet u2])"
    by (simp add: compare2_def handle_valid [OF assms] snd_scrape_features respond_def)
qed

text \<open>The amended claim at a request whose first URL times out.\<close>

theorem compare_first_failure_terminal_witness:
  "compare world0 (request (str ''http://a.example/x'') (str ''http://b.example/y'')) =
     (Inr (400, ErrorBody (str ''Failed to fetch http://a.example/x: timed out'')),
      [PlainGet (str ''http://a.example/x''), PlainGet (str ''http://b.example/y'')])
   \<and> compare2 world0 (request (str ''http://a.example/x'') (str ''http://b.example/y'')) =
     (Inr (400, ErrorBody (str ''Failed to fetch http://a.example/x: timed out'')),
      [PlainGet (str ''http://a.example/x''), PlainGet (str ''http://b.example/y'')])"
proof -
  let ?a = "str ''http://a.example/x''" and ?b = "str ''http://b.example/y''"
  let ?d = "[(str ''url1'', JStr ?a), (str ''url2'', JStr ?b)]"
  let ?m = "str ''Failed to fetch http://a.example/x: timed out''"
  have h1: "map_of ?d (str ''url1'') = Some (JStr ?a)" by (simp add: str_def)
  have h2: "map_of ?d (str ''url2'') = Some (JStr ?b)" by (simp add: str_def)
  have h3: "is_valid_url ?a" by (simp add: is_valid_url_def str_def)
  have h4: "is_valid_url ?b" by (simp add: is_valid_url_def str_def)
  have f: "fst (scrape_features world0 ?a []) = [(str ''error'', ?m)]"
    by (simp add: scrape_features_def world0_def str_def)
  have r: "routed world0 ?a [] = scrape_features world0 ?a []"
    by (simp add: routed_def str_def)
  have na: "\<not> (contains (str ''amazon'') ?a \<or> contains (str ''flipkart'') ?a)"
    "\<not> (contains (str ''amazon'') ?b \<or> contains (str ''flipkart'') ?b)"
    by (simp_all add: str_def)
  have e1: "map_of (fst (routed world0 ?a [])) (str ''error'') = Some ?m"
    by (simp only: r f) simp
  have e2: "map_of (fst (scrape_features world0 ?a [])) (str ''error'') = Some ?m"
    by (simp only: f) simp
  show ?thesis
    using compare_first_failure_terminal [OF h1 h2 h3 h4, of world0 ?m] e1 e2 na
    by (simp add: request_def)
qed

text \<open>
  Claim C1 as stated fails: the first extraction fails and the second URL is fetched
  all the same, in both definitions of \<open>compare\<close>.
\<close>

theorem compare_second_url_attempted_counterexample:
  "has_key (fst (routed world0 (str ''http://a.example/x'') [])) (str ''error'')
   \<and> PlainGet (str ''http://b.example/y'')
       \<in> set (snd (compare world0 (request (str ''http://a.example/x'') (str ''http://b.example/y''))))
   \<and> PlainGet (str ''http://b.example/y'')
       \<in> set (snd (compare2 world0 (request (str ''http://a.example/x'') (str ''http://b.example/y''))))"
proof -
  let ?a = "str ''http://a.example/x''" and ?b = "str ''http://b.example/y''"
  let ?d = "[(str ''url1'', JStr ?a), (str ''url2'', JStr ?b)]"
  have h1: "map_of ?d (str ''url1'') = Some (JStr ?a)" by (simp add: str_def)
  have h2: "map_of ?d (str ''url2'') = Some (JStr ?b)" by (simp add: str_def)
  have h3: "is_valid_url ?a" by (simp add: is_valid_url_def str_def)
  have h4: "is_valid_url ?b" by (simp add: is_valid_url_def str_def)
  have "has_key (fst (routed world0 ?a [])) (str ''error'')"
    by (simp add: routed_def scrape_features_def world0_def has_key_def str_def)
  moreover have "snd (compare world0 (request ?a ?b)) = [PlainGet ?a, PlainGet ?b]"
    by (simp add: compare_def request_def handle_valid [OF h1 h2 h3 h4] snd_routed) (simp add: str_def)
  moreover have "snd (compare2 world0 (request ?a ?b)) = [PlainGet ?a, PlainGet ?b]"
    by (simp add: compare2_def request_def handle_valid [OF h1 h2 h3 h4] snd_scrape_features)
  ultimately show ?thesis by simp
qed

text \<open>
  Claim C2, as amended.  \<open>normalize_key\<close> is a total function of its argument.  Its
  result is non-empty exactly when the label holds a code point that is not white
  space; for the empty label and for a label of white space only it is the empty string.
\<close>

theorem normalize_key_nonempty_iff:
  "normalize_key s \<noteq> [] \<longleftrightarrow> (\<exists>c \<in> set s. \<not> is_space c)"
  by (simp add: normalize_key_eq_Nil)

text \<open>
  The amended claim at the label \<open>Resolution\<close>.
\<close>

theorem normalize_key_nonempty_iff_witness:
  "(\<exists>c \<in> set (str ''Resolution''). \<not> is_space c) \<and> normalize_key (str ''Resolution'') \<noteq> []"
proof -
  have h: "\<exists>c \<in> set (str ''Resolution''). \<not> is_space c" by (simp add: str_def is_space_def)
  then show ?thesis using normalize_key_nonempty_iff [of "str ''Resolution''"] by simp
qed

text \<open>
  Claim C2 as stated fails: the empty label and a label of three spaces are normalised
  to the empty string.
\<close>

theorem normalize_key_empty_counterexample:
  "normalize_key [] = [] \<and> normalize_key (str ''   '') = []"
  by (simp add: normalize_key_def mapping_def str_defs chr_defs)



text \<open>
  Claim C10, as amended.  On a label of ASCII code points, normalising twice gives the
  same result as normalising once.
\<close>

theorem normalize_key_idempotent_ascii:
  "ascii s \<Longrightarrow> normalize_key (normalize_key s) = normalize_key s"
  by (rule normalize_key_idem_ascii)

text \<open>
  The amended claim at the label \<open>Screen Resolution\<close>, which no pattern matches.
\<close>

theorem normalize_key_idempotent_ascii_witness:
  "ascii (str ''Screen Resolution'')
   \<and> normalize_key (str ''Screen Resolution'') = str ''Screen Resolution''
   \<and> normalize_key (normalize_key (str ''Screen Resolution'')) = normalize_key (str ''Screen Resolution'')"
proof -
  have h: "ascii (str ''Screen Resolution'')" by (simp add: ascii_def str_def)
  have "normalize_key (str ''Screen Resolution'') = str ''Screen Resolution''"
    by (simp add: normalize_key_def mapping_def str_defs chr_defs)
  then show ?thesis using h normalize_key_idempotent_ascii [OF h] by simp
qed

text \<open>
  Claim C10 as stated fails.  The label is \<open>my\<close>, a space, U+017F, \<open>torage\<close>.  No pattern
  occurs in it, since U+017F is its own lowercase; its title case is \<open>My Storage\<close>, since
  the titlecase of U+017F is \<open>S\<close>; and \<open>My Storage\<close> is normalised to \<open>Storage\<close>.
\<close>

theorem normalize_key_not_idempotent_counterexample:
  "normalize_key (str ''my '' @ [383] @ str ''torage'') = str ''My Storage''
   \<and> normalize_key (normalize_key (str ''my '' @ [383] @ str ''torage'')) = str ''Storage''
   \<and> normalize_key (normalize_key (str ''my '' @ [383] @ str ''torage''))
       \<noteq> normalize_key (str ''my '' @ [383] @ str ''torage'')"
  by (simp add: normalize_key_def mapping_def str_defs chr_defs)

text \<open>
  Claim C5.  When the payload is missing or empty, when either URL is absent or empty,
  or when either URL is a string that does not start with \<open>http://\<close> or \<open>https://\<close>,
  both definitions of \<open>compare\<close> answer with status 400 and a validation message, and
  the log of fetches is empty.
\<close>

theorem compare_validation_before_fetch:
  assumes "\<not> truthy data
     \<or> (\<exists>d. data = JObj d
          \<and> (\<not> truthy (dict_get d (str ''url1'')) \<or> \<not> truthy (dict_get d (str ''url2''))
             \<or> (\<exists>u1. dict_get d (str ''url1'') = JStr u1 \<and> \<not> is_valid_url u1)
             \<or> (\<exists>u1 u2. dict_get d (str ''url1'') = JStr u1 \<and> dict_get d (str ''url2'') = JStr u2
                   \<and> \<not> is_valid_url u2)))"
  shows "\<exists>m \<in> {str ''Missing JSON payload'', str ''Both URLs are required'',
                str ''URLs must start with http:// or https://''}.
           compare w data = (Inr (400, ErrorBody m), [])
           \<and> compare2 w data = (Inr (400, ErrorBody m), [])"
proof (cases "truthy data")
  case False
  then show ?thesis by (simp add: compare_def compare2_def handle_def)
next
  case True
  then obtain d where d: "data = JObj d"
    and c: "\<not> truthy (dict_get d (str ''url1'')) \<or> \<not> truthy (dict_get d (str ''url2''))
             \<or> (\<exists>u1. dict_get d (str ''url1'') = JStr u1 \<and> \<not> is_valid_url u1)
             \<or> (\<exists>u1 u2. dict_get d (str ''url1'') = JStr u1 \<and> dict_get d (str ''url2'') = JStr u2
                   \<and> \<not> is_valid_url u2)"
    using assms by blast
  have t: "d \<noteq> []" using True d by simp
  show ?thesis
  proof (cases "truthy (dict_get d (str ''url1'')) \<and> truthy (dict_get d (str ''url2''))")
    case False
    then show ?thesis using t d by (simp add: compare_def compare2_def handle_def Let_def)
  next
    case both: True
    then consider
      (a) u1 where "dict_get d (str ''url1'') = JStr u1" "\<not> is_valid_url u1"
      | (b) u1 u2 where "dict_get d (str ''url1'') = JStr u1" "dict_get d (str ''url2'') = JStr u2"
          "is_valid_url u1" "\<not> is_valid_url u2"
      using c by blast
    then show ?thesis
    proof cases
      case a
      then show ?thesis using t d both by (simp add: compare_def compare2_def handle_def Let_def)
    next
      case b
      then show ?thesis using t d both by (simp add: compare_def compare2_def handle_def Let_def)
    qed
  qed
qed

text \<open>
  Claim C5 at the request of the spec (\<open>ftp://x\<close> and \<open>https://y\<close>), at a missing
  payload and at a payload without \<open>url2\<close>.
\<close>

theorem compare_validation_before_fetch_witness:
  "compare world0 (request (str ''ftp://x'') (str ''https://y'')) =
     (Inr (400, ErrorBody (str ''URLs must start with http:// or https://'')), [])
   \<and> compare2 world0 (request (str ''ftp://x'') (str ''https://y'')) =
     (Inr (400, ErrorBody (str ''URLs must start with http:// or https://'')), [])
   \<and> compare world0 JNull = (Inr (400, ErrorBody (str ''Missing JSON payload'')), [])
   \<and> compare world0 (JObj [(str ''url1'', JStr (str ''https://y''))]) =
     (Inr (400, ErrorBody (str ''Both URLs are required'')), [])"
proof -
  let ?d = "[(str ''url1'', JStr (str ''ftp://x'')), (str ''url2'', JStr (str ''https://y''))]"
  let ?e = "[(str ''url1'', JStr (str ''https://y''))]"
  have g: "dict_get ?d (str ''url1'') = JStr (str ''ftp://x'')"
    by (simp add: dict_get_def str_def)
  have v: "\<not> is_valid_url (str ''ftp://x'')" by (simp add: is_valid_url_def str_def)
  have h1: "\<not> truthy (JObj ?d)
     \<or> (\<exists>d. JObj ?d = JObj d
          \<and> (\<not> truthy (dict_get d (str ''url1'')) \<or> \<not> truthy (dict_get d (str ''url2''))
             \<or> (\<exists>u1. dict_get d (str ''url1'') = JStr u1 \<and> \<not> is_valid_url u1)
             \<or> (\<exists>u1 u2. dict_get d (str ''url1'') = JStr u1 \<and> dict_get d (str ''url2'') = JStr u2
                   \<and> \<not> is_valid_url u2)))"
    using g v by blast
  have h2: "\<not> truthy JNull
     \<or> (\<exists>d. JNull = JObj d
          \<and> (\<not> truthy (dict_get d (str ''url1'')) \<or> \<not> truthy (dict_get d (str ''url2''))
             \<or> (\<exists>u1. dict_get d (str ''url1'') = JStr u1 \<and> \<not> is_valid_url u1)
             \<or> (\<exists>u1 u2. dict_get d (str ''url1'') = JStr u1 \<and> dict_get d (str ''url2'') = JStr u2
                   \<and> \<not> is_valid_url u2)))"
    by simp
  have g3: "\<not> truthy (dict_get ?e (str ''url2''))" by (simp add: dict_get_def str_def)
  have h3: "\<not> truthy (JObj ?e)
     \<or> (\<exists>d. JObj ?e = JObj d
          \<and> (\<not> truthy (dict_get d (str ''url1'')) \<or> \<not> truthy (dict_get d (str ''url2''))
             \<or> (\<exists>u1. dict_get d (str ''url1'') = JStr u1 \<and> \<not> is_valid_url u1)
             \<or> (\<exists>u1 u2. dict_get d (str ''url1'') = JStr u1 \<and> dict_get d (str ''url2'') = JStr u2
                   \<and> \<not> is_valid_url u2)))"
    using g3 by blast
  have m: "str ''Missing JSON payload'' \<noteq> str ''URLs must start with http:// or https://''"
    "str ''Both URLs are required'' \<noteq> str ''URLs must start with http:// or https://''"
    "str ''Missing JSON payload'' \<noteq> str ''Both URLs are required''"
    by (simp_all add: str_def)
  have r1: "fst (compare world0 (JObj ?d)) = Inr (400, ErrorBody (str ''URLs must start with http:// or https://''))"
    using g v by (simp add: compare_def handle_def Let_def dict_get_def) (simp add: str_def)
  have r2: "fst (compare world0 JNull) = Inr (400, ErrorBody (str ''Missing JSON payload''))"
    by (simp add: compare_def handle_def)
  have r3: "fst (compare world0 (JObj ?e)) = Inr (400, ErrorBody (str ''Both URLs are required''))"
    using g3 by (simp add: compare_def handle_def Let_def)
  from compare_validation_before_fetch [OF h1, of world0] r1 m
  have a1: "compare world0 (JObj ?d) = (Inr (400, ErrorBody (str ''URLs must start with http:// or https://'')), [])
      \<and> compare2 world0 (JObj ?d) = (Inr (400, ErrorBody (str ''URLs must start with http:// or https://'')), [])"
    by auto
  from compare_validation_before_fetch [OF h2, of world0] r2 m
  have a2: "compare world0 JNull = (Inr (400, ErrorBody (str ''Missing JSON payload'')), [])"
    by auto
  from compare_validation_before_fetch [OF h3, of world0] r3 m
  have a3: "compare world0 (JObj ?e) = (Inr (400, ErrorBody (str ''Both URLs are required'')), [])"
    by auto
  show ?thesis using a1 a2 a3 by (simp add: request_def)
qed

text \<open>
  Claim C6, evaluated on the code.  On every page that is fetched and parsed, the
  generic extractor returns the failure map of line 192, whose only key is \<open>error\<close> and
  whose message is that of the \<open>NameError\<close> raised at line 151; it returns no feature
  map.
\<close>

theorem generic_extractor_raises_name_error:
  assumes "requests_get w url = Inr pg"
  shows "fst (scrape_features w url log) =
     [(str ''error'', str ''Error scraping '' @ url @ str '': name 'extract_text' is not defined'')]"
  using assms by (simp add: scrape_features_def features_of_eq)

text \<open>The same at a page with a heading and a meta description.\<close>

theorem generic_extractor_raises_name_error_witness:
  "requests_get world0 (str ''http://b.example/y'') = Inr page0
   \<and> fst (scrape_features world0 (str ''http://b.example/y'') []) =
       [(str ''error'',
         str ''Error scraping http://b.example/y: name 'extract_text' is not defined'')]"
proof -
  have h: "requests_get world0 (str ''http://b.example/y'') = Inr page0"
    by (simp add: world0_def str_def)
  have "str ''Error scraping '' @ str ''http://b.example/y''
      @ str '': name 'extract_text' is not defined''
    = str ''Error scraping http://b.example/y: name 'extract_text' is not defined''"
    by (simp add: str_def)
  then show ?thesis using h generic_extractor_raises_name_error [OF h, of "[]"] by simp
qed

text \<open>
  Claim C7, evaluated on the code.  On every page that is fetched and parsed, the map
  that the generic extractor returns has no key \<open>Description\<close>, whatever the meta
  description of the page: lines 156--164 are never reached.
\<close>

theorem generic_extractor_writes_no_description:
  assumes "requests_get w url = Inr pg"
  shows "map_of (fst (scrape_features w url log)) (str ''Description'') = None"
proof -
  have "str ''Description'' \<noteq> str ''error''" by (simp add: str_def)
  then show ?thesis using assms by (simp add: scrape_features_def features_of_eq)
qed

text \<open>The same at a page whose meta description is \<open>A widget\<close>.\<close>

theorem generic_extractor_writes_no_description_witness:
  "requests_get world0 (str ''http://b.example/y'') = Inr page0
   \<and> meta_description page0 = Some (Some (str ''A widget''))
   \<and> map_of (fst (scrape_features world0 (str ''http://b.example/y'') [])) (str ''Description'')
       = None"
proof -
  have h: "requests_get world0 (str ''http://b.example/y'') = Inr page0"
    by (simp add: world0_def str_def)
  have m: "meta_description page0 = Some (Some (str ''A widget''))" by (simp add: page0_def)
  show ?thesis using h m generic_extractor_writes_no_description [OF h, of "[]"] by simp
qed

text \<open>
  Claim C4, as amended.  The first definition of \<open>compare\<close> routes a URL on the
  substrings \<open>amazon\<close> and \<open>flipkart\<close> of the whole URL: it uses the rendering fetch if
  one of them occurs anywhere in the URL, with the Amazon adapter if \<open>amazon\<close> occurs and
  the Flipkart adapter otherwise, and the plain fetch with the generic extractor if
  neither occurs.  The result for each URL of a request depends on that URL alone.
\<close>

theorem router_selects_by_url_substring:
  "snd (routed w url log) =
      log @ [if contains (str ''amazon'') url \<or> contains (str ''flipkart'') url
             then RenderGet url else PlainGet url]
   \<and> (contains (str ''amazon'') url \<and> session_get w url = Inr r
        \<longrightarrow> fst (routed w url log) = amazon_data r)
   \<and> (\<not> contains (str ''amazon'') url \<and> contains (str ''flipkart'') url \<and> session_get w url = Inr r
        \<longrightarrow> fst (routed w url log) = flipkart_data r)
   \<and> (\<not> contains (str ''amazon'') url \<and> \<not> contains (str ''flipkart'') url \<and> requests_get w url = Inr pg
        \<longrightarrow> fst (routed w url log) = features_of url pg)
   \<and> (map_of d (str ''url1'') = Some (JStr u1) \<and> map_of d (str ''url2'') = Some (JStr u2)
        \<and> is_valid_url u1 \<and> is_valid_url u2
        \<longrightarrow> compare w (JObj d) =
              (Inr (respond (fst (routed w u1 [])) (fst (routed w u2 []))),
               [if contains (str ''amazon'') u1 \<or> contains (str ''flipkart'') u1
                then RenderGet u1 else PlainGet u1,
                if contains (str ''amazon'') u2 \<or> contains (str ''flipkart'') u2
                then RenderGet u2 else PlainGet u2]))"
proof (intro conjI impI)
  show "snd (routed w url log) =
      log @ [if contains (str ''amazon'') url \<or> contains (str ''flipkart'') url
             then RenderGet url else PlainGet url]"
    by (rule snd_routed)
next
  assume "contains (str ''amazon'') url \<and> session_get w url = Inr r"
  then show "fst (routed w url log) = amazon_data r"
    by (simp add: routed_def scrape_dynamic_features_def)
next
  assume "\<not> contains (str ''amazon'') url \<and> contains (str ''flipkart'') url \<and> session_get w url = Inr r"
  then show "fst (routed w url log) = flipkart_data r"
    by (simp add: routed_def scrape_dynamic_features_def)
next
  assume "\<not> contains (str ''amazon'') url \<and> \<not> contains (str ''flipkart'') url \<and> requests_get w url = Inr pg"
  then show "fst (routed w url log) = features_of url pg"
    by (simp add: routed_def scrape_features_def)
next
  assume h: "map_of d (str ''url1'') = Some (JStr u1) \<and> map_of d (str ''url2'') = Some (JStr u2)
        \<and> is_valid_url u1 \<and> is_valid_url u2"
  have "fst (routed w u2 (snd (routed w u1 []))) = fst (routed w u2 [])" by (rule fst_routed)
  then show "compare w (JObj d) =
              (Inr (respond (fst (routed w u1 [])) (fst (routed w u2 []))),
               [if contains (str ''amazon'') u1 \<or> contains (str ''flipkart'') u1
                then RenderGet u1 else PlainGet u1,
                if contains (str ''amazon'') u2 \<or> contains (str ''flipkart'') u2
                then RenderGet u2 else PlainGet u2])"
    using h by (simp add: compare_def handle_valid snd_routed)
qed

text \<open>
  The amended claim at an Amazon URL, a Flipkart URL and a URL of another site.
\<close>

theorem router_selects_by_url_substring_witness:
  "fst (routed world0 (str ''https://www.amazon.in/dp/B0'') []) = amazon_data rendered0
   \<and> fst (routed world0 (str ''https://www.flipkart.com/p/1'') []) = flipkart_data rendered0
   \<and> fst (routed world0 (str ''http://b.example/y'') []) = features_of (str ''http://b.example/y'') page0
   \<and> snd (compare world0 (request (str ''https://www.amazon.in/dp/B0'') (str ''http://b.example/y'')))
       = [RenderGet (str ''https://www.amazon.in/dp/B0''), PlainGet (str ''http://b.example/y'')]"
proof -
  let ?a = "str ''https://www.amazon.in/dp/B0''" and ?f = "str ''https://www.flipkart.com/p/1''"
    and ?b = "str ''http://b.example/y''"
  let ?d = "[(str ''url1'', JStr ?a), (str ''url2'', JStr ?b)]"
  have ca: "contains (str ''amazon'') ?a" by (simp add: str_def)
  have cf: "\<not> contains (str ''amazon'') ?f" "contains (str ''flipkart'') ?f" by (simp_all add: str_def)
  have cb: "\<not> contains (str ''amazon'') ?b" "\<not> contains (str ''flipkart'') ?b" by (simp_all add: str_def)
  have s: "session_get world0 ?a = Inr rendered0" "session_get world0 ?f = Inr rendered0"
    by (simp_all add: world0_def)
  have g: "requests_get world0 ?b = Inr page0" by (simp add: world0_def str_def)
  have h1: "map_of ?d (str ''url1'') = Some (JStr ?a)" by (simp add: str_def)
  have h2: "map_of ?d (str ''url2'') = Some (JStr ?b)" by (simp add: str_def)
  have h3: "is_valid_url ?a" by (simp add: is_valid_url_def str_def)
  have h4: "is_valid_url ?b" by (simp add: is_valid_url_def str_def)
  have "fst (routed world0 ?a []) = amazon_data rendered0"
    using router_selects_by_url_substring [of world0 ?a "[]" rendered0] ca s by blast
  moreover have "fst (routed world0 ?f []) = flipkart_data rendered0"
    using router_selects_by_url_substring [of world0 ?f "[]" rendered0] cf s by blast
  moreover have "fst (routed world0 ?b []) = features_of ?b page0"
    using router_selects_by_url_substring [of world0 ?b "[]" _ page0] cb g by blast
  moreover have "snd (compare world0 (JObj ?d)) = [RenderGet ?a, PlainGet ?b]"
    using router_selects_by_url_substring [of world0 ?a "[]" rendered0 page0 ?d ?a ?b]
      h1 h2 h3 h4 ca cb by simp
  ultimately show ?thesis by (simp add: request_def)
qed

text \<open>
  Claim C4 as stated fails: the host of \<^verbatim>\<open>https://example.com/amazon-deals\<close> is
  \<open>example.com\<close>, which matches neither marketplace, and the URL is fetched with the
  rendering fetch.
\<close>

theorem router_ignores_host_counterexample:
  "\<not> spec_host_matches (str ''https://example.com/amazon-deals'')
   \<and> spec_host (str ''https://example.com/amazon-deals'') = str ''example.com''
   \<and> snd (routed world0 (str ''https://example.com/amazon-deals'') [])
       = [RenderGet (str ''https://example.com/amazon-deals'')]"
proof -
  have "spec_host (str ''https://example.com/amazon-deals'') = str ''example.com''"
    by (simp add: spec_host_def str_def)
  moreover have "\<not> contains (str ''amazon'') (str ''example.com'')"
    "\<not> contains (str ''flipkart'') (str ''example.com'')"
    by (simp_all add: str_def)
  moreover have "contains (str ''amazon'') (str ''https://example.com/amazon-deals'')"
    by (simp add: str_def)
  ultimately show ?thesis by (simp add: spec_host_matches_def snd_routed)
qed

text \<open>
  Claim C8.  For a URL in which \<open>amazon\<close> or \<open>flipkart\<close> occurs, the rendered-DOM
  extractor does not return the failure \<open>Unsupported platform\<close>; the extraction that
  \<open>compare\<close> performs for a URL never returns it, and no response of either definition
  of \<open>compare\<close> carries it.
\<close>

theorem unsupported_platform_unreachable:
  "(contains (str ''amazon'') url \<or> contains (str ''flipkart'') url
      \<longrightarrow> map_of (fst (scrape_dynamic_features w url log)) (str ''error'')
            \<noteq> Some (str ''Unsupported platform''))
   \<and> map_of (fst (routed w url log)) (str ''error'') \<noteq> Some (str ''Unsupported platform'')
   \<and> fst (compare w data) \<noteq> Inr (c, ErrorBody (str ''Unsupported platform''))
   \<and> fst (compare2 w data) \<noteq> Inr (c, ErrorBody (str ''Unsupported platform''))"
proof (intro conjI impI)
  assume "contains (str ''amazon'') url \<or> contains (str ''flipkart'') url"
  then show "map_of (fst (scrape_dynamic_features w url log)) (str ''error'')
            \<noteq> Some (str ''Unsupported platform'')"
    using scrape_dynamic_features_message by blast
next
  show "map_of (fst (routed w url log)) (str ''error'') \<noteq> Some (str ''Unsupported platform'')"
    using routed_message by blast
next
  show "fst (compare w data) \<noteq> Inr (c, ErrorBody (str ''Unsupported platform''))"
  proof
    assume a: "fst (compare w data) = Inr (c, ErrorBody (str ''Unsupported platform''))"
    have "str ''Unsupported platform'' \<noteq> str ''Missing JSON payload''"
      "str ''Unsupported platform'' \<noteq> str ''Both URLs are required''"
      "str ''Unsupported platform'' \<noteq> str ''URLs must start with http:// or https://''"
      by (simp_all add: str_def)
    then obtain u lg where
      "map_of (fst (routed w u lg)) (str ''error'') = Some (str ''Unsupported platform'')"
      using handle_error_body [of "routed w" data c "str ''Unsupported platform''"] a
      by (auto simp: compare_def)
    then show False using routed_message by blast
  qed
next
  show "fst (compare2 w data) \<noteq> Inr (c, ErrorBody (str ''Unsupported platform''))"
  proof
    assume a: "fst (compare2 w data) = Inr (c, ErrorBody (str ''Unsupported platform''))"
    have "str ''Unsupported platform'' \<noteq> str ''Missing JSON payload''"
      "str ''Unsupported platform'' \<noteq> str ''Both URLs are required''"
      "str ''Unsupported platform'' \<noteq> str ''URLs must start with http:// or https://''"
      by (simp_all add: str_def)
    then obtain u lg where
      "map_of (fst (scrape_features w u lg)) (str ''error'') = Some (str ''Unsupported platform'')"
      using handle_error_body [of "scrape_features w" data c "str ''Unsupported platform''"] a
      by (auto simp: compare2_def)
    then show False using scrape_features_message by blast
  qed
qed

text \<open>
  Claim C8 at a Flipkart URL.
\<close>

theorem unsupported_platform_unreachable_witness:
  "contains (str ''flipkart'') (str ''https://www.flipkart.com/p/1'')
   \<and> map_of (fst (scrape_dynamic_features world0 (str ''https://www.flipkart.com/p/1'') []))
        (str ''error'') \<noteq> Some (str ''Unsupported platform'')
   \<and> fst (scrape_dynamic_features world0 (str ''https://www.flipkart.com/p/1'') []) =
       [(str ''Product'', str ''N/A''), (str ''Price'', str ''N/A''), (str ''Battery'', str ''5000 mAh'')]"
proof -
  let ?f = "str ''https://www.flipkart.com/p/1''"
  have c: "\<not> contains (str ''amazon'') ?f" "contains (str ''flipkart'') ?f" by (simp_all add: str_def)
  have n: "normalize_key (strip (str ''Battery Capacity'')) = str ''Battery''"
    by (simp add: normalize_key_def mapping_def str_defs chr_defs)
  have t: "strip (str ''5000 mAh'') = str ''5000 mAh''" by (simp add: str_defs chr_defs)
  have k: "str ''Product'' \<noteq> str ''Price''" "str ''Product'' \<noteq> str ''Battery''"
    "str ''Price'' \<noteq> str ''Battery''" by (simp_all add: str_def)
  have "flipkart_data rendered0 =
      [(str ''Product'', str ''N/A''), (str ''Price'', str ''N/A''), (str ''Battery'', str ''5000 mAh'')]"
    using k by (simp add: flipkart_data_def rendered0_def text_or_NA_def setitem_def n t)
  then have "fst (scrape_dynamic_features world0 ?f []) =
      [(str ''Product'', str ''N/A''), (str ''Price'', str ''N/A''), (str ''Battery'', str ''5000 mAh'')]"
    using c by (simp add: scrape_dynamic_features_def world0_def)
  then show ?thesis
    using c unsupported_platform_unreachable [of ?f world0 "[]" JNull 400] by simp
qed

text \<open>
  Claim C9.  \<open>normalize_key\<close> never returns \<open>error\<close>.  The feature map of a successful
  extraction on the rendered-DOM path does not hold the key \<open>error\<close>, and when both URLs
  of a valid request take that path and both are rendered, \<open>compare\<close> answers with
  status 200 and both feature maps.  On the generic path no extraction succeeds: every
  result is a failure map whose only key is \<open>error\<close>, so none is a success taken for a
  failure.
\<close>

theorem no_error_key_on_success:
  "normalize_key s \<noteq> str ''error''
   \<and> (session_get w url = Inr r \<and> (contains (str ''amazon'') url \<or> contains (str ''flipkart'') url)
        \<longrightarrow> \<not> has_key (fst (scrape_dynamic_features w url log)) (str ''error''))
   \<and> (\<exists>m. fst (scrape_features w url log) = [(str ''error'', m)])
   \<and> (map_of d (str ''url1'') = Some (JStr u1) \<and> map_of d (str ''url2'') = Some (JStr u2)
        \<and> is_valid_url u1 \<and> is_valid_url u2
        \<and> (contains (str ''amazon'') u1 \<or> contains (str ''flipkart'') u1)
        \<and> (contains (str ''amazon'') u2 \<or> contains (str ''flipkart'') u2)
        \<and> session_get w u1 = Inr r1 \<and> session_get w u2 = Inr r2
        \<longrightarrow> fst (compare w (JObj d)) =
              Inr (200, DataBody (fst (routed w u1 [])) (fst (routed w u2 []))))"
proof (intro conjI impI)
  show "normalize_key s \<noteq> str ''error''" by (rule normalize_key_not_error)
next
  assume "session_get w url = Inr r \<and> (contains (str ''amazon'') url \<or> contains (str ''flipkart'') url)"
  then show "\<not> has_key (fst (scrape_dynamic_features w url log)) (str ''error'')"
    by (auto simp: has_key_def scrape_dynamic_features_def amazon_data_error flipkart_data_error)
next
  show "\<exists>m. fst (scrape_features w url log) = [(str ''error'', m)]"
    by (simp add: scrape_features_def features_of_eq split: sum.splits exn.splits)
next
  assume h: "map_of d (str ''url1'') = Some (JStr u1) \<and> map_of d (str ''url2'') = Some (JStr u2)
        \<and> is_valid_url u1 \<and> is_valid_url u2
        \<and> (contains (str ''amazon'') u1 \<or> contains (str ''flipkart'') u1)
        \<and> (contains (str ''amazon'') u2 \<or> contains (str ''flipkart'') u2)
        \<and> session_get w u1 = Inr r1 \<and> session_get w u2 = Inr r2"
  have ok: "map_of (fst (routed w u [])) (str ''error'') = None"
    if "contains (str ''amazon'') u \<or> contains (str ''flipkart'') u" "session_get w u = Inr x"
    for u x
    using that
    by (auto simp: routed_def scrape_dynamic_features_def amazon_data_error flipkart_data_error)
  have "fst (routed w u2 (snd (routed w u1 []))) = fst (routed w u2 [])" by (rule fst_routed)
  then show "fst (compare w (JObj d)) =
              Inr (200, DataBody (fst (routed w u1 [])) (fst (routed w u2 [])))"
    using h ok [of u1 r1] ok [of u2 r2] by (simp add: compare_def handle_valid respond_def)
qed

text \<open>Claim C9 at a request for an Amazon page and a Flipkart page.\<close>

theorem no_error_key_on_success_witness:
  "fst (compare world0
         (request (str ''https://www.amazon.in/dp/B0'') (str ''https://www.flipkart.com/p/1''))) =
     Inr (200, DataBody
       [(str ''Product'', str ''Phone''), (str ''Price'', str ''N/A''), (str ''RAM'', str ''8 GB''),
        (str ''Storage'', str ''128 GB'')]
       [(str ''Product'', str ''N/A''), (str ''Price'', str ''N/A''),
        (str ''Battery'', str ''5000 mAh'')])
   \<and> \<not> has_key (fst (scrape_dynamic_features world0 (str ''https://www.amazon.in/dp/B0'') []))
         (str ''error'')"
proof -
  let ?a = "str ''https://www.amazon.in/dp/B0''" and ?f = "str ''https://www.flipkart.com/p/1''"
  let ?d = "[(str ''url1'', JStr ?a), (str ''url2'', JStr ?f)]"
  have ca: "contains (str ''amazon'') ?a" by (simp add: str_def)
  have cf: "\<not> contains (str ''amazon'') ?f" "contains (str ''flipkart'') ?f"
    by (simp_all add: str_def)
  have s: "session_get world0 ?a = Inr rendered0" "session_get world0 ?f = Inr rendered0"
    by (simp_all add: world0_def)
  have h1: "map_of ?d (str ''url1'') = Some (JStr ?a)" by (simp add: str_def)
  have h2: "map_of ?d (str ''url2'') = Some (JStr ?f)" by (simp add: str_def)
  have h3: "is_valid_url ?a" by (simp add: is_valid_url_def str_def)
  have h4: "is_valid_url ?f" by (simp add: is_valid_url_def str_def)
  have n: "normalize_key (strip (str ''RAM'')) = str ''RAM''"
    "normalize_key (strip (str ''Internal Storage'')) = str ''Storage''"
    "normalize_key (strip (str ''Battery Capacity'')) = str ''Battery''"
    by (simp_all add: normalize_key_def mapping_def str_defs chr_defs)
  have t: "strip (str ''8 GB'') = str ''8 GB''" "strip (str ''128 GB'') = str ''128 GB''"
    "strip (str '' Phone '') = str ''Phone''" "strip (str ''5000 mAh'') = str ''5000 mAh''"
    by (simp_all add: str_defs chr_defs)
  have k: "str ''Product'' \<noteq> str ''Price''" "str ''Product'' \<noteq> str ''RAM''"
    "str ''Price'' \<noteq> str ''RAM''" "str ''Product'' \<noteq> str ''Storage''"
    "str ''Price'' \<noteq> str ''Storage''" "str ''RAM'' \<noteq> str ''Storage''"
    "str ''Product'' \<noteq> str ''Battery''" "str ''Price'' \<noteq> str ''Battery''"
    by (simp_all add: str_def)
  have a: "amazon_data rendered0 =
      [(str ''Product'', str ''Phone''), (str ''Price'', str ''N/A''), (str ''RAM'', str ''8 GB''),
        (str ''Storage'', str ''128 GB'')]"
    using k by (simp add: amazon_data_def rendered0_def text_or_NA_def setitem_def n t)
  have b: "flipkart_data rendered0 =
      [(str ''Product'', str ''N/A''), (str ''Price'', str ''N/A''),
       (str ''Battery'', str ''5000 mAh'')]"
    using k by (simp add: flipkart_data_def rendered0_def text_or_NA_def setitem_def n t)
  have ra: "fst (routed world0 ?a []) = amazon_data rendered0"
    using ca s by (simp add: routed_def scrape_dynamic_features_def)
  have rb: "fst (routed world0 ?f []) = flipkart_data rendered0"
    using cf s by (simp add: routed_def scrape_dynamic_features_def)
  show ?thesis
    using no_error_key_on_success [where w = world0 and url = ?a and r = rendered0 and log = "[]"
          and d = ?d and ?u1.0 = ?a and ?u2.0 = ?f and ?r1.0 = rendered0 and ?r2.0 = rendered0]
      s h1 h2 h3 h4 ca cf ra rb a b
    by (simp add: request_def)
qed

end
